theory Spec2Isabelle
  imports Main "HOL-Library.Word"
begin

unbundle bit_operations_syntax

section \<open>Memory\<close>

text \<open>
  The allocator keeps all of its administration inside the mapping it manages and reaches
  every field through \<open>swizzle\<close>, so the model is an explicit byte store: a total function
  from 64-bit addresses to bytes. Multi-byte fields are read and written the way an LP64
  little-endian host (x86-64, AArch64) does it, least significant byte first; \<open>size_t\<close>,
  \<open>uintptr_t\<close> and \<open>intptr_t\<close> are 64-bit words and all arithmetic on them wraps.
\<close>

type_synonym u8 = "8 word"
type_synonym u16 = "16 word"
type_synonym u32 = "32 word"
type_synonym u64 = "64 word"
type_synonym memory = "u64 \<Rightarrow> u8"

definition load8 :: "memory \<Rightarrow> u64 \<Rightarrow> u8" where
  "load8 m a = m a"

definition store8 :: "memory \<Rightarrow> u64 \<Rightarrow> u8 \<Rightarrow> memory" where
  "store8 m a v = (\<lambda>x. if x - a < 1 then v else m x)"

definition load64 :: "memory \<Rightarrow> u64 \<Rightarrow> u64" where
  "load64 m a =
     ucast (m a) OR push_bit 8 (ucast (m (a + 1))) OR push_bit 16 (ucast (m (a + 2)))
     OR push_bit 24 (ucast (m (a + 3))) OR push_bit 32 (ucast (m (a + 4)))
     OR push_bit 40 (ucast (m (a + 5))) OR push_bit 48 (ucast (m (a + 6)))
     OR push_bit 56 (ucast (m (a + 7)))"

definition store64 :: "memory \<Rightarrow> u64 \<Rightarrow> u64 \<Rightarrow> memory" where
  "store64 m a v =
     (\<lambda>x. if x - a < 8 then ucast (drop_bit (8 * unat (x - a)) v) else m x)"

definition store16 :: "memory \<Rightarrow> u64 \<Rightarrow> u16 \<Rightarrow> memory" where
  "store16 m a v =
     (\<lambda>x. if x - a < 2 then ucast (drop_bit (8 * unat (x - a)) v) else m x)"

text \<open>\<open>memset(a, c, n)\<close>: the \<open>n\<close> bytes from \<open>a\<close> on become \<open>c\<close>.\<close>

definition memset :: "memory \<Rightarrow> u64 \<Rightarrow> u8 \<Rightarrow> u64 \<Rightarrow> memory" where
  "memset m a c n = (\<lambda>x. if x - a < n then c else m x)"

text \<open>\<open>memcpy\<close> of a byte string to \<open>a\<close>.\<close>

definition store_bytes :: "memory \<Rightarrow> u64 \<Rightarrow> u8 list \<Rightarrow> memory" where
  "store_bytes m a bs =
     (\<lambda>x. if x - a < of_nat (length bs) then bs ! unat (x - a) else m x)"

definition zero_memory :: memory where
  "zero_memory = (\<lambda>_. 0)"

section \<open>Layout\<close>

text \<open>
  \<open>PAGE_SIZE\<close> and \<open>PAGE_MASK\<close> are the macros of region.c. The field offsets and
  structure sizes are those of \<open>struct region\<close>, \<open>struct cache\<close> and \<open>struct slab\<close> under
  LP64: every \<open>size_t\<close> and \<open>uintptr_t\<close> field takes 8 bytes, \<open>name\<close> takes 16, the two
  \<open>uint16_t\<close> fields of a cache share one 8-byte slot.
\<close>

definition PAGE_SIZE :: u64 where
  "PAGE_SIZE = 4096"

definition PAGE_MASK :: u64 where
  "PAGE_MASK = NOT (PAGE_SIZE - 1)"

text \<open>\<open>struct region\<close>\<close>

definition region_size_off :: u64 where "region_size_off = 0"
definition region_pages_off :: u64 where "region_pages_off = 8"
definition region_free_page_off :: u64 where "region_free_page_off = 16"
definition heap_bitset_bits_off :: u64 where "heap_bitset_bits_off = 24"
definition heap_bitset_size_off :: u64 where "heap_bitset_size_off = 32"
definition caches_bitset_bits_off :: u64 where "caches_bitset_bits_off = 40"
definition caches_bitset_size_off :: u64 where "caches_bitset_size_off = 48"
definition caches_count_off :: u64 where "caches_count_off = 56"
definition caches_cache_off :: u64 where "caches_cache_off = 64"
definition sizeof_cache :: u64 where "sizeof_cache = 88"
definition sizeof_region :: u64 where "sizeof_region = 64 + 20 * 88"

text \<open>\<open>struct cache\<close>\<close>

definition cache_name_off :: u64 where "cache_name_off = 0"
definition full_slabs_off :: u64 where "full_slabs_off = 16"
definition partial_slabs_off :: u64 where "partial_slabs_off = 32"
definition free_slabs_off :: u64 where "free_slabs_off = 48"
definition object_size_off :: u64 where "object_size_off = 64"
definition alignment_off :: u64 where "alignment_off = 66"
definition aligned_size_off :: u64 where "aligned_size_off = 72"
definition object_count_off :: u64 where "object_count_off = 80"

text \<open>\<open>struct slab_list\<close> and \<open>struct object_list\<close>: \<open>list\<close> first, then \<open>count\<close>.\<close>

definition list_off :: u64 where "list_off = 0"
definition count_off :: u64 where "count_off = 8"

text \<open>\<open>struct slab\<close>\<close>

definition slab_page_next_off :: u64 where "slab_page_next_off = 0"
definition slab_cache_off :: u64 where "slab_cache_off = 8"
definition slab_list_off :: u64 where "slab_list_off = 16"
definition slab_next_off :: u64 where "slab_next_off = 24"
definition slab_objects_off :: u64 where "slab_objects_off = 32"
definition slab_free_objects_off :: u64 where "slab_free_objects_off = 40"
definition sizeof_slab :: u64 where "sizeof_slab = 56"

section \<open>Offset arithmetic (region.h)\<close>

text \<open>A region is the address of its mapping; an object is an offset from it.\<close>

definition swizzle :: "u64 \<Rightarrow> u64 \<Rightarrow> u64" where
  "swizzle region object = region + object"

definition unswizzle :: "u64 \<Rightarrow> u64 \<Rightarrow> u64" where
  "unswizzle region pointer = pointer - region"

section \<open>Size classes and cache setup\<close>

definition alloc_size_index :: "nat list" where
  "alloc_size_index =
     [0, 1, 2, 2, 3, 3, 3, 3, 4, 4, 4, 4, 4, 4, 4, 4,
      5, 5, 5, 5, 5, 5, 5, 5, 5, 5, 5, 5, 5, 5, 5, 5]"

text \<open>\<open>alloc_caches\<close>: name, size, align.\<close>

definition alloc_caches :: "(string \<times> u64 \<times> u64) list" where
  "alloc_caches =
     [(''region_alloc-8'', 8, 8), (''region_alloc-16'', 16, 8),
      (''region_alloc-32'', 32, 8), (''region_alloc-64'', 64, 8),
      (''region_alloc-128'', 128, 8), (''region_alloc-256'', 256, 8)]"

definition aligned_size :: "u64 \<Rightarrow> u64 \<Rightarrow> u64" where
  "aligned_size sz align0 =
     (let align = (if align0 = 0 then 8 else align0)
      in if align > sz then align
         else align * ((sz + (align - 1)) div align))"

text \<open>
  \<open>cache_init\<close> takes the next free descriptor of \<open>caches.cache\<close>, clears it and fills it
  in. The name is cut to 15 bytes. Its one division is by the aligned size just stored,
  which is at least 8 for every entry of \<open>alloc_caches\<close>.
\<close>

definition cache_init :: "memory \<Rightarrow> u64 \<Rightarrow> string \<Rightarrow> u64 \<Rightarrow> u64 \<Rightarrow> memory \<times> u64" where
  "cache_init m region name sz align =
     (let ident = load64 m (region + caches_count_off);
          m = store64 m (region + caches_count_off) (ident + 1);
          cache = region + caches_cache_off + sizeof_cache * ident;
          slab_space = PAGE_SIZE - sizeof_slab;
          name_length = (if length name \<ge> 16 then 15 else length name);
          m = memset m cache 0 sizeof_cache;
          m = store_bytes m (cache + cache_name_off)
                (map (\<lambda>c. of_nat (of_char c)) (take name_length name));
          m = store16 m (cache + object_size_off) (ucast sz);
          m = store16 m (cache + alignment_off) (ucast align);
          m = store64 m (cache + aligned_size_off) (aligned_size sz align);
          m = store64 m (cache + object_count_off)
                (slab_space div load64 m (cache + aligned_size_off))
      in (m, ident))"

section \<open>Region initialisation\<close>

text \<open>The loop of \<open>region_init\<close> over the table of preconfigured caches.\<close>

fun init_caches :: "memory \<Rightarrow> u64 \<Rightarrow> (string \<times> u64 \<times> u64) list \<Rightarrow> memory" where
  "init_caches m region [] = m"
| "init_caches m region ((name, sz, align) # rest) =
     init_caches (fst (cache_init m region name sz align)) region rest"

text \<open>
  The part of \<open>region_init\<close> after the bitmaps have been placed: size, cache count, first
  data page and free-page hint, then one \<open>cache_init\<close> per entry of \<open>alloc_caches\<close>.
\<close>

definition region_init_caches :: "memory \<Rightarrow> u64 \<Rightarrow> u64 \<Rightarrow> u64 \<Rightarrow> memory" where
  "region_init_caches m region sz pages =
     (let m = store64 m (region + region_size_off) sz;
          m = store64 m (region + caches_count_off) 0;
          m = store64 m (region + region_free_page_off) pages;
          m = store64 m (region + region_pages_off) pages
      in init_caches m region alloc_caches)"

text \<open>
  \<open>region_init\<close> returns the memory and the region pointer; the pointer is 0 (\<open>NULL\<close>), with
  the memory untouched, when it refuses.
\<close>

definition region_init :: "memory \<Rightarrow> u64 \<Rightarrow> u64 \<Rightarrow> memory \<times> u64" where
  "region_init m address sz =
     (if address AND PAGE_MASK \<noteq> address then (m, 0)
      else
        let pages = ((sizeof_region + PAGE_SIZE) div PAGE_SIZE) * PAGE_SIZE;
            caches = of_nat (length alloc_caches);
            size_pages = sz div PAGE_SIZE
        in if sz AND PAGE_MASK \<noteq> sz \<or> sz < pages \<or> size_pages \<le> caches then (m, 0)
           else
             let region = address;
                 bitmap_size = ((sz div PAGE_SIZE) + 7) AND (- 8);
                 unused_space = drop_bit 1 (PAGE_SIZE - sizeof_region)
             in if bitmap_size < unused_space then
                  let m = store64 m (region + heap_bitset_bits_off)
                            (PAGE_SIZE - push_bit 1 bitmap_size);
                      m = store64 m (region + heap_bitset_size_off) bitmap_size;
                      m = store64 m (region + caches_bitset_bits_off) (PAGE_SIZE - bitmap_size);
                      m = store64 m (region + caches_bitset_size_off) bitmap_size
                  in (region_init_caches m region sz pages, region)
                else
                  let bitmap_pages = (push_bit 1 bitmap_size + (PAGE_SIZE - 1)) div PAGE_SIZE
                  in if bitmap_pages + caches \<ge> size_pages then (m, 0)
                     else
                       let m = store64 m (region + heap_bitset_bits_off)
                                 (sz - PAGE_SIZE * bitmap_pages);
                           m = store64 m (region + heap_bitset_size_off) bitmap_size;
                           m = store64 m (region + caches_bitset_bits_off)
                                 (sz - drop_bit 2 (PAGE_SIZE * bitmap_pages));
                           m = store64 m (region + caches_bitset_size_off) bitmap_size
                       in (region_init_caches m region sz pages, region))"

text \<open>
  The preconditions in the words of the interface contract: the address is page-aligned,
  the size is a multiple of the page size, the size is at least the header rounded up to
  whole pages, and there are more pages than preconfigured caches.
\<close>

definition header_pages :: u64 where
  "header_pages = ((sizeof_region + PAGE_SIZE - 1) div PAGE_SIZE) * PAGE_SIZE"

definition init_precondition :: "u64 \<Rightarrow> u64 \<Rightarrow> bool" where
  "init_precondition address sz \<longleftrightarrow>
     address mod PAGE_SIZE = 0 \<and> sz mod PAGE_SIZE = 0 \<and> header_pages \<le> sz
     \<and> of_nat (length alloc_caches) < sz div PAGE_SIZE"

section \<open>Page bitmaps and object tests\<close>

text \<open>
  \<open>get_bit\<close>: the byte \<open>bit >> 3\<close> of the bitmap at offset \<open>bits\<close>, masked with
  \<open>1u << ((bit ^ 7) & 0xf)\<close>, and cut to \<open>uint8_t\<close> on return. The size argument is unused,
  as in the source.
\<close>

definition get_bit :: "memory \<Rightarrow> u64 \<Rightarrow> u64 \<Rightarrow> u64 \<Rightarrow> u64 \<Rightarrow> u8" where
  "get_bit m region bits sz bitno =
     ucast ((ucast (load8 m (swizzle region bits + drop_bit 3 bitno)) :: u32)
            AND push_bit (unat ((bitno XOR 7) AND 0xf)) 1)"

definition is_heap_object :: "memory \<Rightarrow> u64 \<Rightarrow> u64 \<Rightarrow> bool" where
  "is_heap_object m region object =
     (let bitno = object AND PAGE_MASK
      in 0 \<noteq> get_bit m region (load64 m (region + caches_bitset_bits_off))
                 (load64 m (region + caches_bitset_size_off)) bitno)"

definition is_cache_object :: "memory \<Rightarrow> u64 \<Rightarrow> u64 \<Rightarrow> bool" where
  "is_cache_object m region object =
     (let bitno = object AND PAGE_MASK
      in 0 \<noteq> get_bit m region (load64 m (region + heap_bitset_bits_off))
                 (load64 m (region + heap_bitset_size_off)) bitno)"

definition is_object :: "memory \<Rightarrow> u64 \<Rightarrow> u64 \<Rightarrow> bool" where
  "is_object m region object =
     (if object \<le> load64 m (region + region_pages_off)
         \<or> object \<ge> load64 m (region + region_size_off) then False
      else if object AND 7 \<noteq> 0 then False
      else if \<not> is_cache_object m region object \<and> \<not> is_heap_object m region object then False
      else True)"

text \<open>
  How \<open>allocate_slab\<close> marks a page: bit \<open>7 - p % 8\<close> of byte \<open>p / 8\<close> of the bitmap, where
  \<open>p\<close> is the page number. \<open>page_marked\<close> reads a bitmap by that rule.
\<close>

definition page_marked :: "memory \<Rightarrow> u64 \<Rightarrow> u64 \<Rightarrow> u64 \<Rightarrow> bool" where
  "page_marked m region bits p =
     (load8 m (swizzle region bits + p div 8) AND push_bit (unat (7 - p mod 8)) 1 \<noteq> 0)"

section \<open>Page allocator\<close>

text \<open>\<open>__builtin_ctzll\<close>: the number of zero bits below the lowest set bit.\<close>

definition ctzll :: "u64 \<Rightarrow> nat" where
  "ctzll x = length (takeWhile (\<lambda>i. \<not> bit x i) [0..<64])"

text \<open>
  The scan loop of \<open>allocate_page\<close>: while the combined word is all ones and \<open>block\<close> has
  not passed \<open>last_block\<close> (the bitmap size with its low six bits cleared), take the next
  word. \<open>heap_bits\<close> and \<open>cache_bits\<close> are \<open>uint64_t\<close> pointers indexed by \<open>block\<close>.
\<close>

function scan_blocks :: "memory \<Rightarrow> u64 \<Rightarrow> u64 \<Rightarrow> u64 \<Rightarrow> u64 \<Rightarrow> u64 \<Rightarrow> u64 \<times> u64" where
  "scan_blocks m heap_bits cache_bits bitset_size bits block =
     (if bits = - 1 \<and> block \<le> (bitset_size AND (- 64))
      then scan_blocks m heap_bits cache_bits bitset_size
             (load64 m (heap_bits + 8 * block) OR load64 m (cache_bits + 8 * block))
             (block + 1)
      else (bits, block))"
  by pat_completeness auto
termination
proof (relation "measure (\<lambda>(m, hb, cb, s, bits, block). unat (s AND (- 64)) + 1 - unat block)")
  show "wf (measure (\<lambda>(m, hb, cb, s, bits, block). unat (s AND (- 64)) + 1 - unat block))"
    by simp
next
  fix m :: memory and heap_bits cache_bits bitset_size bits block :: u64
  assume a: "bits = - 1 \<and> block \<le> bitset_size AND - 64"
  have "bitset_size AND - 64 \<le> - 64"
    by (rule word_and_le1)
  with a have "block \<le> - 64"
    by (meson order_trans)
  then have "block \<noteq> - 1"
    by (auto simp add: word_le_nat_alt unsigned_minus_1_eq_mask mask_eq_exp_minus_1)
  then have "1 + block \<noteq> 0"
    by (metis add.commute add_eq_0_iff)
  then have "unat (block + 1) = Suc (unat block)"
    by (simp add: unatSuc add.commute)
  moreover from a have "unat block \<le> unat (bitset_size AND - 64)"
    by (simp add: word_le_nat_alt)
  ultimately show
    "((m, heap_bits, cache_bits, bitset_size,
       load64 m (heap_bits + 8 * block) OR load64 m (cache_bits + 8 * block), block + 1),
      (m, heap_bits, cache_bits, bitset_size, bits, block))
     \<in> measure (\<lambda>(m, hb, cb, s, bits, block). unat (s AND (- 64)) + 1 - unat block)"
    by simp
qed

text \<open>
  \<open>allocate_page\<close> returns the memory with the new \<open>free_page\<close> and the page it hands out
  (0 when \<open>free_page\<close> is 0).
\<close>

definition allocate_page :: "memory \<Rightarrow> u64 \<Rightarrow> memory \<times> u64" where
  "allocate_page m region =
     (let page = load64 m (region + region_free_page_off)
      in if page = 0 then (m, 0)
         else
           let bitno = page div PAGE_SIZE;
               block0 = (bitno + 1) AND (- 64);
               bitset_size = load64 m (region + heap_bitset_size_off);
               last_block = bitset_size AND (- 64);
               bits0 = (if bitno > block0
                        then push_bit (unat ((bitno XOR 63) AND 63)) 1 else 0);
               heap_bits = swizzle region (load64 m (region + heap_bitset_bits_off));
               cache_bits = swizzle region (load64 m (region + caches_bitset_bits_off));
               bits1 = bits0 OR (load64 m (heap_bits + 8 * block0)
                                 OR load64 m (cache_bits + 8 * block0));
               (bits2, block) =
                 scan_blocks m heap_bits cache_bits bitset_size bits1 (block0 + 1);
               bits = (if block = last_block + 1
                       then bits2 OR push_bit (unat ((bitset_size XOR 63) AND 63)) 1
                       else bits2);
               m = store64 m (region + region_free_page_off)
                     (if bits \<noteq> - 1 then (block + of_nat (ctzll (NOT bits))) * PAGE_SIZE
                      else 0)
           in (m, page))"

section \<open>Object caches\<close>

text \<open>
  Functions that contain a loop whose end depends on the contents of the region return
  an option: \<open>None\<close> when the call yields no result, \<open>Some\<close> of the new memory (and the
  returned value) otherwise. The \<open>assert\<close> statements are left out, as in a build with
  \<open>NDEBUG\<close>.

  The threading loop of \<open>allocate_slab\<close>: from the last slot down, as long as \<open>object\<close>
  is above \<open>slab->objects\<close>, store the offset of the slot after it.
\<close>

partial_function (option) thread_objects ::
  "memory \<Rightarrow> u64 \<Rightarrow> u64 \<Rightarrow> u64 \<Rightarrow> u64 \<Rightarrow> u64 \<Rightarrow> (memory \<times> u64) option" where
  "thread_objects m region slab cache object next_object =
     (if object > load64 m (slab + slab_objects_off)
      then thread_objects (store64 m (swizzle region object) next_object) region slab cache
             (object - load64 (store64 m (swizzle region object) next_object)
                         (cache + aligned_size_off))
             object
      else Some (m, object))"

declare thread_objects.simps [code]

definition allocate_slab :: "memory \<Rightarrow> u64 \<Rightarrow> u64 \<Rightarrow> (memory \<times> u64) option" where
  "allocate_slab m0 region cache =
     (let (m, slab_offset) = allocate_page m0 region
      in if slab_offset = 0 then Some (m, 0)
         else
           let bits = swizzle region (load64 m (region + caches_bitset_bits_off));
               bitno = slab_offset div PAGE_SIZE;
               m = store8 m (bits + bitno div 8)
                     (ucast ((ucast (load8 m (bits + bitno div 8)) :: u32)
                             OR push_bit (unat (7 - bitno mod 8)) 1));
               slab = swizzle region slab_offset;
               m = memset m (slab + 8) 0 (PAGE_SIZE - 8);
               m = store64 m (slab + slab_cache_off) (unswizzle region cache);
               m = store64 m (slab + slab_list_off) (unswizzle region (cache + free_slabs_off));
               m = store64 m (slab + slab_next_off) (load64 m (cache + free_slabs_off + list_off));
               m = store64 m (slab + slab_objects_off)
                     (slab_offset + (PAGE_SIZE - ((load64 m (cache + object_count_off) - 1)
                                                  * load64 m (cache + aligned_size_off))));
               m = store64 m (slab + slab_free_objects_off + list_off)
                     (load64 m (slab + slab_objects_off));
               m = store64 m (slab + slab_free_objects_off + count_off)
                     (load64 m (cache + object_count_off));
               object = load64 m (slab + slab_objects_off)
                        + ((load64 m (cache + object_count_off) - 1)
                           * load64 m (cache + aligned_size_off))
           in case thread_objects m region slab cache object 0 of
                None \<Rightarrow> None
              | Some (m, object) \<Rightarrow>
                  let m = store64 m (cache + free_slabs_off + list_off) slab_offset;
                      m = store64 m (cache + free_slabs_off + count_off)
                            (load64 m (cache + free_slabs_off + count_off) + 1)
                  in Some (m, slab_offset))"

text \<open>
  The last three statements of \<open>cache_alloc\<close>: count the object out, return the head of the
  slab's free-object list and make the word stored in that object the new head.
\<close>

definition take_object :: "memory \<Rightarrow> u64 \<Rightarrow> u64 \<Rightarrow> memory \<times> u64" where
  "take_object m region slab =
     (let m = store64 m (slab + slab_free_objects_off + count_off)
                (load64 m (slab + slab_free_objects_off + count_off) - 1);
          object_offset = load64 m (slab + slab_free_objects_off + list_off);
          m = store64 m (slab + slab_free_objects_off + list_off)
                (load64 m (swizzle region object_offset))
      in (m, object_offset))"

definition cache_alloc :: "memory \<Rightarrow> u64 \<Rightarrow> u64 \<Rightarrow> u64 \<Rightarrow> (memory \<times> u64) option" where
  "cache_alloc m region index sz =
     (let cache = region + caches_cache_off + sizeof_cache * index
      in if load64 m (cache + partial_slabs_off + list_off) \<noteq> 0 then
           let slab_offset = load64 m (cache + partial_slabs_off + list_off);
               slab = swizzle region slab_offset;
               m = (if load64 m (slab + slab_free_objects_off + count_off) = 1 then
                      let m = store64 m (cache + partial_slabs_off + count_off)
                                (load64 m (cache + partial_slabs_off + count_off) - 1);
                          m = store64 m (cache + partial_slabs_off + list_off)
                                (load64 m (slab + slab_next_off));
                          v = load64 m (cache + full_slabs_off + list_off);
                          m = store64 m (slab + slab_next_off) v;
                          m = store64 m (slab + slab_list_off) v;
                          m = store64 m (cache + full_slabs_off + count_off)
                                (load64 m (cache + full_slabs_off + count_off) + 1);
                          m = store64 m (cache + full_slabs_off + list_off) slab_offset
                      in m
                    else m)
           in Some (take_object m region slab)
         else
           case (if load64 m (cache + free_slabs_off + list_off) = 0
                 then allocate_slab m region cache else Some (m, 1)) of
             None \<Rightarrow> None
           | Some (m, allocated) \<Rightarrow>
               if allocated = 0 then Some (m, 0)
               else
                 let slab_offset = load64 m (cache + free_slabs_off + list_off);
                     slab = swizzle region slab_offset;
                     m = store64 m (cache + free_slabs_off + count_off)
                           (load64 m (cache + free_slabs_off + count_off) - 1);
                     m = store64 m (cache + free_slabs_off + list_off)
                           (load64 m (slab + slab_next_off));
                     m = (if load64 m (slab + slab_free_objects_off + count_off) = 1 then
                            let m = store64 m (slab + slab_list_off)
                                      (unswizzle region (cache + full_slabs_off));
                                m = store64 m (slab + slab_next_off)
                                      (load64 m (cache + full_slabs_off + list_off));
                                m = store64 m (cache + full_slabs_off + count_off)
                                      (load64 m (cache + full_slabs_off + count_off) + 1);
                                m = store64 m (cache + full_slabs_off + list_off) slab_offset
                            in m
                          else
                            let m = store64 m (slab + slab_list_off)
                                      (unswizzle region (cache + partial_slabs_off));
                                m = store64 m (slab + slab_next_off)
                                      (load64 m (cache + partial_slabs_off + list_off));
                                m = store64 m (cache + partial_slabs_off + count_off)
                                      (load64 m (cache + partial_slabs_off + count_off) + 1);
                                m = store64 m (cache + partial_slabs_off + list_off) slab_offset
                            in m)
                 in Some (take_object m region slab))"

text \<open>
  The double-free scan of \<open>cache_free\<close>. Its body compares the word stored in the free object
  with \<open>free_object\<close> and drops the result; \<open>free_object\<close> is never assigned in the loop.
\<close>

partial_function (option) double_free_scan :: "memory \<Rightarrow> u64 \<Rightarrow> u64 \<Rightarrow> unit option" where
  "double_free_scan m region free_object =
     (if free_object \<noteq> 0 then double_free_scan m region free_object else Some ())"

declare double_free_scan.simps [code]

definition cache_free :: "memory \<Rightarrow> u64 \<Rightarrow> u64 \<Rightarrow> u64 \<Rightarrow> memory option" where
  "cache_free m region index object =
     (let slab_offset = object AND PAGE_MASK;
          slab = swizzle region slab_offset;
          cache = region + caches_cache_off + sizeof_cache * index
      in case double_free_scan m region (load64 m (slab + slab_free_objects_off + list_off)) of
           None \<Rightarrow> None
         | Some _ \<Rightarrow>
             let m = store64 m (swizzle region object)
                       (load64 m (slab + slab_free_objects_off + list_off));
                 m = store64 m (slab + slab_free_objects_off + list_off) object;
                 m = store64 m (slab + slab_free_objects_off + count_off)
                       (load64 m (slab + slab_free_objects_off + count_off) + 1)
             in if load64 m (slab + slab_free_objects_off + count_off)
                   \<noteq> load64 m (cache + object_count_off) then Some m
                else
                  let m = (if load64 m (cache + partial_slabs_off + list_off) = slab_offset then
                             let m = store64 m (cache + partial_slabs_off + count_off)
                                       (load64 m (cache + partial_slabs_off + count_off) - 1);
                                 m = store64 m (cache + partial_slabs_off + list_off)
                                       (load64 m (slab + slab_next_off))
                             in m
                           else m);
                      m = store64 m (slab + slab_next_off)
                            (load64 m (cache + free_slabs_off + list_off));
                      m = store64 m (cache + free_slabs_off + count_off)
                            (load64 m (cache + free_slabs_off + count_off) + 1);
                      m = store64 m (cache + free_slabs_off + list_off) slab_offset
                  in Some m)"

definition object_cache :: "memory \<Rightarrow> u64 \<Rightarrow> u64 \<Rightarrow> u64" where
  "object_cache m region object =
     (let slab = swizzle region (object AND PAGE_MASK);
          cache_offset = load64 m (slab + slab_cache_off);
          cache = swizzle region cache_offset;
          x = cache - (region + caches_cache_off)
      in x div sizeof_cache)"

section \<open>Public interface\<close>

definition is_small_object_size :: "u64 \<Rightarrow> bool" where
  "is_small_object_size sz \<longleftrightarrow> sz \<le> 256"

definition small_object_cache :: "u64 \<Rightarrow> u64" where
  "small_object_cache sz = of_nat (alloc_size_index ! unat (drop_bit 3 (sz - 1)))"

text \<open>
  \<open>region_alloc\<close> has no return statement for sizes above 256 (the heap path is disabled),
  so it yields no result there. It looks \<open>alloc_size_index\<close> up only for sizes from 1 to
  256, that is at an index from 0 to 31.
\<close>

definition region_alloc :: "memory \<Rightarrow> u64 \<Rightarrow> u64 \<Rightarrow> (memory \<times> u64) option" where
  "region_alloc m region sz =
     (if is_small_object_size sz then
        if sz = 0 then Some (m, 0)
        else cache_alloc m region (small_object_cache sz) sz
      else None)"

definition region_free :: "memory \<Rightarrow> u64 \<Rightarrow> u64 \<Rightarrow> memory option" where
  "region_free m region object =
     (if object \<le> load64 m (region + region_pages_off)
         \<or> object \<ge> load64 m (region + region_size_off) then Some m
      else if object AND 7 \<noteq> 0 then Some m
      else if is_cache_object m region object
           then cache_free m region (object_cache m region object) object
      else Some m)"

section \<open>Free-object lists\<close>

text \<open>
  Following a slab's free-object list from \<open>object\<close>: every free slot holds, in its first
  word, the offset of the next one, and offset 0 ends the list. The walk gives the slots in
  the order it meets them, or \<open>None\<close> when it has not reached 0 after \<open>fuel\<close> slots.
\<close>

fun free_objects_walk :: "nat \<Rightarrow> memory \<Rightarrow> u64 \<Rightarrow> u64 \<Rightarrow> u64 list option" where
  "free_objects_walk 0 m region object = None"
| "free_objects_walk (Suc fuel) m region object =
     (if object = 0 then Some []
      else map_option ((#) object)
             (free_objects_walk fuel m region (load64 m (swizzle region object))))"

section \<open>Two regions and the calls made on them\<close>

text \<open>
  A mapping of zeroed memory at \<open>map_address\<close>, initialised once as a region of 20 pages
  (the size the demo driver alloc.c uses) and once as a region of 248 pages. The states
  below are the results of the calls named in their definitions; each is a pair of the
  memory after the call and the value returned, or the memory alone for \<open>region_free\<close>.
\<close>

definition map_address :: u64 where
  "map_address = 0x100000"

definition init20 :: "memory \<times> u64" where
  "init20 = region_init zero_memory map_address (20 * PAGE_SIZE)"

definition region20 :: memory where
  "region20 = fst init20"

text \<open>\<open>region_alloc(region, 256)\<close> on the fresh 20-page region, and the same call again.\<close>

definition alloc256 :: "memory \<times> u64" where
  "alloc256 = the (region_alloc region20 map_address 256)"

definition realloc256 :: "memory \<times> u64" where
  "realloc256 = the (region_alloc (fst alloc256) map_address 256)"

text \<open>
  \<open>allocate_slab\<close> for the cache of 256-byte objects, \<open>caches.cache[5]\<close>, on the fresh 20-page
  region.
\<close>

definition slab256 :: "memory \<times> u64" where
  "slab256 =
     the (allocate_slab region20 map_address (map_address + caches_cache_off + sizeof_cache * 5))"

text \<open>
  On the 248-page region: \<open>region_alloc(region, 256)\<close>, then \<open>region_alloc(region, 128)\<close>,
  then \<open>region_free\<close> of the second object.
\<close>

definition init248 :: "memory \<times> u64" where
  "init248 = region_init zero_memory map_address (248 * PAGE_SIZE)"

definition region248 :: memory where
  "region248 = fst init248"

definition big256 :: "memory \<times> u64" where
  "big256 = the (region_alloc region248 map_address 256)"

definition next128 :: "memory \<times> u64" where
  "next128 = the (region_alloc (fst big256) map_address 128)"

definition freed128 :: memory where
  "freed128 = the (region_free (fst next128) map_address 4352)"

text \<open>A memory that differs from \<open>m\<close> at most in the \<open>n\<close> bytes from \<open>a\<close> on.\<close>

definition differs_in :: "memory \<Rightarrow> memory \<Rightarrow> u64 \<Rightarrow> u64 \<Rightarrow> bool" where
  "differs_in m' m a n \<longleftrightarrow> (\<forall>x. \<not> (x - a < n) \<longrightarrow> m' x = m x)"

section \<open>Reading memory\<close>

text \<open>
  A read goes through the writes made so far, last write first. A write whose bytes lie
  apart from the bytes read is skipped; the rules below decide that on the addresses as
  natural numbers, which is sound while nothing wraps around \<open>2 ^ 64\<close> (every address here
  is below \<open>2 ^ 32\<close>).
\<close>

lemmas layout_defs =
  PAGE_SIZE_def PAGE_MASK_def region_size_off_def region_pages_off_def
  region_free_page_off_def heap_bitset_bits_off_def heap_bitset_size_off_def
  caches_bitset_bits_off_def caches_bitset_size_off_def caches_count_off_def
  caches_cache_off_def sizeof_cache_def sizeof_region_def cache_name_off_def
  full_slabs_off_def partial_slabs_off_def free_slabs_off_def object_size_off_def
  alignment_off_def aligned_size_off_def object_count_off_def list_off_def count_off_def
  slab_page_next_off_def slab_cache_off_def slab_list_off_def slab_next_off_def
  slab_objects_off_def slab_free_objects_off_def sizeof_slab_def

lemma unat_of_nat_small: "n \<le> 4294967296 \<Longrightarrow> unat (of_nat n :: u64) = n"
  by (simp add: unat_of_nat)

lemma unat_num: "(numeral a :: nat) \<le> 4294967296 \<Longrightarrow> unat (numeral a :: u64) = numeral a"
  using unat_of_nat_small [of "numeral a"] by (simp only: of_nat_numeral)

lemma miss1:
  fixes a n x :: u64
  assumes "unat x < unat a \<or> unat a + unat n \<le> unat x" and "unat a + unat n \<le> 2 ^ 64"
  shows "\<not> (x - a < n)"
proof -
  have "unat (x - a) = (if unat a \<le> unat x then unat x - unat a else unat x + 2 ^ 64 - unat a)"
    by (simp add: unat_sub_if_size word_size)
  with assms show ?thesis
    by (auto simp add: word_less_nat_alt split: if_splits)
qed

lemma miss8:
  fixes a n b i :: u64
  assumes "unat b + 8 \<le> unat a \<or> unat a + unat n \<le> unat b"
    and "unat a + unat n \<le> 2 ^ 64" and "unat b + 8 \<le> 2 ^ 64" and "i < 8"
  shows "\<not> (b + i - a < n)"
proof (rule miss1)
  have i: "unat i < 8"
    using \<open>i < 8\<close> by (simp add: word_less_nat_alt)
  with assms(3) have "unat b + unat i < 2 ^ LENGTH(64)"
    by simp
  then have s: "unat (b + i) = unat b + unat i"
    by (simp only: unat_add_lem)
  from assms(1) i show "unat (b + i) < unat a \<or> unat a + unat n \<le> unat (b + i)"
    unfolding s by arith
  show "unat a + unat n \<le> 2 ^ 64"
    by (rule assms(2))
qed

lemma differs_in_writes:
  "differs_in (store64 m a v) m a 8"
  "differs_in (store16 m a w) m a 2"
  "differs_in (store8 m a c) m a 1"
  "differs_in (memset m a c n) m a n"
  "differs_in (store_bytes m a bs) m a (of_nat (length bs))"
  by (simp_all add: differs_in_def store64_def store16_def store8_def memset_def store_bytes_def)

lemma load8_miss_nat:
  assumes "differs_in m' m (of_nat A) n" and "unat n = k"
    and "B < A \<or> A + k \<le> B"
    and "A \<le> 4294967296" and "B \<le> 4294967296" and "k \<le> 4294967296"
  shows "m' (of_nat B) = m (of_nat B)"
proof -
  have "\<not> ((of_nat B :: u64) - of_nat A < n)"
    using assms(2-) by (intro miss1) (simp_all add: unat_of_nat_small)
  with assms(1) show ?thesis
    by (simp add: differs_in_def)
qed

lemma load64_miss_nat:
  assumes "differs_in m' m (of_nat A) n" and "unat n = k"
    and "B + 8 \<le> A \<or> A + k \<le> B"
    and "A \<le> 4294967296" and "B \<le> 4294967296" and "k \<le> 4294967296"
  shows "load64 m' (of_nat B) = load64 m (of_nat B)"
proof -
  have "\<not> ((of_nat B :: u64) + i - of_nat A < n)" if "i < 8" for i :: u64
    using assms(2-) that by (intro miss8) (simp_all add: unat_of_nat_small)
  from this [of 0] this [of 1] this [of 2] this [of 3] this [of 4] this [of 5] this [of 6]
    this [of 7] assms(1)
  show ?thesis
    by (simp add: differs_in_def load64_def)
qed

lemma store64_miss_nat:
  "B < A \<or> A + 8 \<le> B \<Longrightarrow> A \<le> 4294967296 \<Longrightarrow> B \<le> 4294967296
   \<Longrightarrow> store64 m (of_nat A) v (of_nat B) = m (of_nat B)"
  by (rule load8_miss_nat [OF differs_in_writes(1), where k = 8]) simp_all

lemma store16_miss_nat:
  "B < A \<or> A + 2 \<le> B \<Longrightarrow> A \<le> 4294967296 \<Longrightarrow> B \<le> 4294967296
   \<Longrightarrow> store16 m (of_nat A) v (of_nat B) = m (of_nat B)"
  by (rule load8_miss_nat [OF differs_in_writes(2), where k = 2]) simp_all

lemma store8_miss_nat:
  "B < A \<or> A + 1 \<le> B \<Longrightarrow> A \<le> 4294967296 \<Longrightarrow> B \<le> 4294967296
   \<Longrightarrow> store8 m (of_nat A) v (of_nat B) = m (of_nat B)"
  by (rule load8_miss_nat [OF differs_in_writes(3), where k = 1]) simp_all

lemma memset_miss_nat:
  "B < A \<or> A + N \<le> B \<Longrightarrow> A \<le> 4294967296 \<Longrightarrow> B \<le> 4294967296 \<Longrightarrow> N \<le> 4294967296
   \<Longrightarrow> memset m (of_nat A) c (of_nat N) (of_nat B) = m (of_nat B)"
  by (rule load8_miss_nat [OF differs_in_writes(4), where k = N]) (simp_all add: unat_of_nat_small)

lemma store_bytes_miss_nat:
  "B < A \<or> A + length bs \<le> B \<Longrightarrow> A \<le> 4294967296 \<Longrightarrow> B \<le> 4294967296
   \<Longrightarrow> length bs \<le> 4294967296
   \<Longrightarrow> store_bytes m (of_nat A) bs (of_nat B) = m (of_nat B)"
  by (rule load8_miss_nat [OF differs_in_writes(5), where k = "length bs"])
    (simp_all add: unat_of_nat_small)

lemma load64_store64_miss_nat:
  "B + 8 \<le> A \<or> A + 8 \<le> B \<Longrightarrow> A \<le> 4294967296 \<Longrightarrow> B \<le> 4294967296
   \<Longrightarrow> load64 (store64 m (of_nat A) v) (of_nat B) = load64 m (of_nat B)"
  by (rule load64_miss_nat [OF differs_in_writes(1), where k = 8]) simp_all

lemma load64_store16_miss_nat:
  "B + 8 \<le> A \<or> A + 2 \<le> B \<Longrightarrow> A \<le> 4294967296 \<Longrightarrow> B \<le> 4294967296
   \<Longrightarrow> load64 (store16 m (of_nat A) v) (of_nat B) = load64 m (of_nat B)"
  by (rule load64_miss_nat [OF differs_in_writes(2), where k = 2]) simp_all

lemma load64_store8_miss_nat:
  "B + 8 \<le> A \<or> A + 1 \<le> B \<Longrightarrow> A \<le> 4294967296 \<Longrightarrow> B \<le> 4294967296
   \<Longrightarrow> load64 (store8 m (of_nat A) v) (of_nat B) = load64 m (of_nat B)"
  by (rule load64_miss_nat [OF differs_in_writes(3), where k = 1]) simp_all

lemma load64_memset_miss_nat:
  "B + 8 \<le> A \<or> A + N \<le> B \<Longrightarrow> A \<le> 4294967296 \<Longrightarrow> B \<le> 4294967296
   \<Longrightarrow> N \<le> 4294967296
   \<Longrightarrow> load64 (memset m (of_nat A) c (of_nat N)) (of_nat B) = load64 m (of_nat B)"
  by (rule load64_miss_nat [OF differs_in_writes(4), where k = N]) (simp_all add: unat_of_nat_small)

lemma load64_store_bytes_miss_nat:
  "B + 8 \<le> A \<or> A + length bs \<le> B \<Longrightarrow> A \<le> 4294967296 \<Longrightarrow> B \<le> 4294967296
   \<Longrightarrow> length bs \<le> 4294967296
   \<Longrightarrow> load64 (store_bytes m (of_nat A) bs) (of_nat B) = load64 m (of_nat B)"
  by (rule load64_miss_nat [OF differs_in_writes(5), where k = "length bs"])
    (simp_all add: unat_of_nat_small)

text \<open>Reading what was written.\<close>

lemma word_of_bytes:
  "ucast (ucast v :: u8) OR push_bit 8 (ucast (ucast (drop_bit 8 v) :: u8))
   OR push_bit 16 (ucast (ucast (drop_bit 16 v) :: u8))
   OR push_bit 24 (ucast (ucast (drop_bit 24 v) :: u8))
   OR push_bit 32 (ucast (ucast (drop_bit 32 v) :: u8))
   OR push_bit 40 (ucast (ucast (drop_bit 40 v) :: u8))
   OR push_bit 48 (ucast (ucast (drop_bit 48 v) :: u8))
   OR push_bit 56 (ucast (ucast (drop_bit 56 v) :: u8)) = (v :: u64)"
  (is "?lhs = v")
proof (rule bit_word_eqI)
  fix n
  assume "n < LENGTH(64)"
  then have "n < 64"
    by simp
  then have "n < 8 \<or> (\<exists>k<8. n = 8 + k) \<or> (\<exists>k<8. n = 16 + k) \<or> (\<exists>k<8. n = 24 + k)
      \<or> (\<exists>k<8. n = 32 + k) \<or> (\<exists>k<8. n = 40 + k) \<or> (\<exists>k<8. n = 48 + k)
      \<or> (\<exists>k<8. n = 56 + k)"
    by presburger
  then consider "n < 8" | k where "n = 8 + k" "k < 8" | k where "n = 16 + k" "k < 8"
    | k where "n = 24 + k" "k < 8" | k where "n = 32 + k" "k < 8"
    | k where "n = 40 + k" "k < 8" | k where "n = 48 + k" "k < 8"
    | k where "n = 56 + k" "k < 8"
    by blast
  then show "bit ?lhs n = bit v n"
    by cases (simp_all add: bit_simps)
qed

lemma load64_store64_same: "load64 (store64 m a v) a = v"
  using word_of_bytes [of v] by (simp add: load64_def store64_def)

lemma store8_same: "store8 m a v a = v"
  by (simp add: store8_def)

lemma load64_zero_memory: "load64 zero_memory a = 0"
  by (simp add: load64_def zero_memory_def)

lemma zero_memory_apply: "zero_memory a = 0"
  by (simp add: zero_memory_def)

lemma unat_of_nat_diff:
  assumes "A \<le> B" and "B \<le> 4294967296"
  shows "unat ((of_nat B :: u64) - of_nat A) = B - A"
proof -
  have "(of_nat B :: u64) - of_nat A = of_nat (B - A)"
    using assms(1) by simp
  moreover have "unat (of_nat (B - A) :: u64) = B - A"
    using assms(2) by (intro unat_of_nat_small) arith
  ultimately show ?thesis
    by (simp only:)
qed

lemma memset_hit_nat:
  assumes "A \<le> B" and "B < A + N" and "B \<le> 4294967296" and "N \<le> 4294967296"
  shows "memset m (of_nat A) c (of_nat N) (of_nat B) = c"
proof -
  have "unat ((of_nat B :: u64) - of_nat A) < unat (of_nat N :: u64)"
    using assms by (simp add: unat_of_nat_diff unat_of_nat_small)
  then show ?thesis
    by (simp only: memset_def word_less_nat_alt if_True)
qed

lemma load64_memset_hit_nat:
  assumes "A \<le> B" and "B + 8 \<le> A + N" and "B \<le> 4294967288" and "N \<le> 4294967296"
  shows "load64 (memset m (of_nat A) 0 (of_nat N)) (of_nat B) = 0"
proof -
  have "memset m (of_nat A) 0 (of_nat N) (of_nat B + of_nat i) = 0" if "i < 8" for i
    using assms that memset_hit_nat [of A "B + i" N m 0] by simp
  from this [of 0] this [of 1] this [of 2] this [of 3] this [of 4] this [of 5] this [of 6]
    this [of 7]
  show ?thesis
    by (simp add: load64_def)
qed

lemma store64_hit_nat:
  assumes "A \<le> B" and "B < A + 8" and "B \<le> 4294967296"
  shows "store64 m (of_nat A) v (of_nat B) = ucast (drop_bit (8 * (B - A)) v)"
proof -
  have u: "unat ((of_nat B :: u64) - of_nat A) = B - A"
    using assms by (simp only: unat_of_nat_diff)
  have "unat ((of_nat B :: u64) - of_nat A) < unat (8 :: u64)"
    using assms unfolding u by simp
  then show ?thesis
    by (simp only: store64_def word_less_nat_alt if_True u)
qed

lemma low_byte_replaced:
  "ucast (c :: u8) OR (r :: u64) = ((ucast (d :: u8) OR r) AND NOT 255) OR ucast c"
  if "take_bit 8 r = 0"
proof (rule bit_word_eqI)
  fix n
  assume "n < LENGTH(64)"
  have r: "\<not> bit r n" if "n < 8"
  proof -
    have "bit (take_bit 8 r) n \<longleftrightarrow> bit (0 :: u64) n"
      using \<open>take_bit 8 r = 0\<close> by simp
    with that show ?thesis
      by (simp add: bit_take_bit_iff)
  qed
  have m: "(255 :: u64) = mask 8"
    by (simp add: mask_eq_exp_minus_1)
  show "bit (ucast c OR r) n = bit (((ucast d OR r) AND NOT 255) OR ucast c) n"
    using r \<open>n < LENGTH(64)\<close>
    by (cases "n < 8") (auto simp add: m bit_simps dest: bit_imp_le_length)
qed

lemma load64_store8_same: "load64 (store8 m a v) a = (load64 m a AND NOT 255) OR ucast v"
proof -
  define r :: u64 where
    "r = push_bit 8 (ucast (m (a + 1))) OR push_bit 16 (ucast (m (a + 2)))
         OR push_bit 24 (ucast (m (a + 3))) OR push_bit 32 (ucast (m (a + 4)))
         OR push_bit 40 (ucast (m (a + 5))) OR push_bit 48 (ucast (m (a + 6)))
         OR push_bit 56 (ucast (m (a + 7)))"
  have t: "take_bit 8 r = 0"
    unfolding r_def by (rule bit_word_eqI) (auto simp add: bit_simps)
  have l: "load64 m a = ucast (m a) OR r"
    by (simp add: load64_def r_def or.assoc)
  have "store8 m a v (a + i) = m (a + i)" if "i \<noteq> 0" for i
    using that by (simp add: store8_def word_less_1)
  from this [of 1] this [of 2] this [of 3] this [of 4] this [of 5] this [of 6] this [of 7]
  have s: "load64 (store8 m a v) a = ucast v OR r"
    by (simp add: load64_def r_def or.assoc store8_same)
  show ?thesis
    unfolding l s by (rule low_byte_replaced [OF t])
qed

lemmas store64_miss = store64_miss_nat [of "numeral b" "numeral a", unfolded of_nat_numeral] for a b
lemmas store16_miss = store16_miss_nat [of "numeral b" "numeral a", unfolded of_nat_numeral] for a b
lemmas store8_miss = store8_miss_nat [of "numeral b" "numeral a", unfolded of_nat_numeral] for a b
lemmas memset_miss =
  memset_miss_nat [of "numeral b" "numeral a" "numeral n", unfolded of_nat_numeral] for a b n
lemmas store_bytes_miss =
  store_bytes_miss_nat [of "numeral b" "numeral a", unfolded of_nat_numeral] for a b
lemmas load64_store64_miss =
  load64_store64_miss_nat [of "numeral b" "numeral a", unfolded of_nat_numeral] for a b
lemmas load64_store16_miss =
  load64_store16_miss_nat [of "numeral b" "numeral a", unfolded of_nat_numeral] for a b
lemmas load64_store8_miss =
  load64_store8_miss_nat [of "numeral b" "numeral a", unfolded of_nat_numeral] for a b
lemmas load64_memset_miss =
  load64_memset_miss_nat [of "numeral b" "numeral a" "numeral n", unfolded of_nat_numeral]
  for a b n
lemmas load64_store_bytes_miss =
  load64_store_bytes_miss_nat [of "numeral b" "numeral a", unfolded of_nat_numeral] for a b
lemmas memset_hit =
  memset_hit_nat [of "numeral a" "numeral b" "numeral n", unfolded of_nat_numeral] for a b n
lemmas load64_memset_hit =
  load64_memset_hit_nat [of "numeral a" "numeral b" "numeral n", unfolded of_nat_numeral]
  for a b n
lemmas store64_hit =
  store64_hit_nat [of "numeral a" "numeral b", unfolded of_nat_numeral] for a b

lemmas read_simps =
  store64_miss store16_miss store8_miss memset_miss store_bytes_miss
  load64_store64_miss load64_store16_miss load64_store8_miss load64_memset_miss
  load64_store_bytes_miss memset_hit load64_memset_hit store64_hit
  load64_store64_same store8_same load64_store8_same load64_zero_memory zero_memory_apply
  load8_def

section \<open>Scans\<close>

lemma ctzll_odd: "odd x \<Longrightarrow> ctzll x = 0"
  by (simp add: ctzll_def upt_rec [of 0] bit_0)

text \<open>
  The double-free scan returns only when it starts at the end of the list: on a slab whose
  free-object list is not empty it never leaves its loop.
\<close>

lemma double_free_scan_returns:
  assumes "double_free_scan m region free_object = Some u"
  shows "free_object = 0"
  by (rule double_free_scan.raw_induct
        [where P = "\<lambda>m region free_object u. free_object = 0", OF _ assms])
    (simp split: if_splits)

lemma double_free_scan_zero: "double_free_scan m region 0 = Some ()"
  by (subst double_free_scan.simps) simp

lemma double_free_scan_nonzero:
  "free_object \<noteq> 0 \<Longrightarrow> double_free_scan m region free_object = None"
  using double_free_scan_returns [of m region free_object]
  by (cases "double_free_scan m region free_object") auto

section \<open>Page alignment and the bit that the object tests read\<close>

lemma page_mask_aligned: "(x :: u64) AND PAGE_MASK = x \<longleftrightarrow> x mod PAGE_SIZE = 0"
proof -
  have m: "PAGE_MASK = NOT (mask 12)"
    by (simp add: PAGE_MASK_def PAGE_SIZE_def mask_eq_exp_minus_1)
  have "x AND NOT (mask 12) = x \<longleftrightarrow> take_bit 12 x = 0"
    by (auto simp add: bit_eq_iff bit_simps)
  also have "\<dots> \<longleftrightarrow> x mod 2 ^ 12 = 0"
    by (simp add: take_bit_eq_mod)
  finally show ?thesis
    by (simp add: m PAGE_SIZE_def)
qed

text \<open>
  \<open>is_cache_object\<close> and \<open>is_heap_object\<close> hand \<open>get_bit\<close> the offset of the object's page
  as the bit number. The low twelve bits of that number are zero, so the shift amount is
  always 7 and the byte read is byte \<open>page offset / 8\<close> of the bitmap, that is 512 bytes
  further on for every page.
\<close>

lemma page_bit_shift: "((object AND PAGE_MASK) XOR 7) AND 15 = (7 :: u64)"
proof -
  have m: "PAGE_MASK = NOT (mask 12)" "(7 :: u64) = mask 3" "(15 :: u64) = mask 4"
    by (simp_all add: PAGE_MASK_def PAGE_SIZE_def mask_eq_exp_minus_1)
  show ?thesis
    unfolding m by (rule bit_word_eqI) (auto simp add: bit_simps)
qed

lemma is_cache_object_byte:
  "is_cache_object m region object \<longleftrightarrow>
     load8 m (swizzle region (load64 m (region + heap_bitset_bits_off))
              + drop_bit 3 (object AND PAGE_MASK)) AND 128 \<noteq> 0"
proof -
  have "(ucast ((ucast b :: u32) AND 128) :: u8) = b AND 128" for b :: u8
    by (rule bit_word_eqI) (auto simp add: bit_simps)
  then show ?thesis
    by (simp add: is_cache_object_def get_bit_def page_bit_shift Let_def)
qed

section \<open>Offsets and initialisation\<close>

text \<open>
  C9. Swizzling adds the region's base to an offset, unswizzling subtracts the base from an
  address, neither looks at the region, and for every region and every offset (so also for
  every offset \<open>region_alloc\<close> returns) unswizzling the swizzled offset gives the offset back.
\<close>

theorem swizzle_unswizzle:
  "unswizzle region (swizzle region object) = object
   \<and> swizzle region object = region + object
   \<and> unswizzle region pointer = pointer - region"
  by (simp add: swizzle_def unswizzle_def)

text \<open>
  C8. \<open>region_init\<close> returns null, and leaves the memory as it was, whenever a
  precondition is violated: the address is not page-aligned, the size is not a multiple of
  the page size, the size is smaller than the header rounded up to whole pages, or the
  number of pages does not exceed the number of preconfigured caches. In particular it
  returns null for a region of exactly one page.
\<close>

theorem region_init_rejects:
  "(\<not> init_precondition address sz \<longrightarrow> region_init m address sz = (m, 0))
   \<and> region_init m address PAGE_SIZE = (m, 0)"
proof -
  have pages: "((sizeof_region + PAGE_SIZE) div PAGE_SIZE) * PAGE_SIZE = header_pages"
    by (simp add: header_pages_def sizeof_region_def PAGE_SIZE_def)
  have aligned: "a AND PAGE_MASK \<noteq> a \<longleftrightarrow> a mod PAGE_SIZE \<noteq> 0" for a :: u64
    by (simp add: page_mask_aligned)
  have rejects: "region_init m address s = (m, 0)" if "\<not> init_precondition address s" for s
    using that
    by (auto simp add: region_init_def init_precondition_def aligned pages Let_def not_less not_le)
  have "\<not> init_precondition address PAGE_SIZE"
    by (simp add: init_precondition_def alloc_caches_def PAGE_SIZE_def)
  with rejects show ?thesis
    by blast
qed

theorem region_init_rejects_witness:
  "\<not> init_precondition 1048577 81920
   \<and> region_init zero_memory 1048577 81920 = (zero_memory, 0)
   \<and> region_init zero_memory 1048576 PAGE_SIZE = (zero_memory, 0)"
proof -
  have "\<not> init_precondition 1048577 81920"
    by (simp add: init_precondition_def PAGE_SIZE_def)
  with region_init_rejects [of 1048577 81920 zero_memory]
    region_init_rejects [of 1048576 81920 zero_memory]
  show ?thesis
    by simp
qed

section \<open>Running the calls\<close>

text \<open>
  The calls on the two regions are run by rewriting: the definitions are unfolded on the
  concrete arguments, and a \<open>let\<close>, a \<open>case\<close> or an \<open>if\<close> is entered only once the value it
  tests is known.
\<close>

lemmas weak_congs = let_weak_cong prod.case_cong_weak option.case_cong_weak if_weak_cong

lemmas init_defs =
  region_init_def region_init_caches_def cache_init_def aligned_size_def layout_defs
  alloc_caches_def Let_def not_eq_complement

lemmas exec_defs =
  region_alloc_def is_small_object_size_def small_object_cache_def alloc_size_index_def
  cache_alloc_def allocate_slab_def allocate_page_def take_object_def swizzle_def
  unswizzle_def layout_defs Let_def not_eq_complement map_address_def
  thread_objects.simps scan_blocks.simps ctzll_odd

lemmas test_defs =
  is_object_def is_cache_object_def is_heap_object_def get_bit_def page_marked_def load8_def
  swizzle_def layout_defs Let_def not_eq_complement map_address_def

lemmas free_defs =
  region_free_def cache_free_def object_cache_def is_cache_object_def get_bit_def load8_def
  swizzle_def unswizzle_def layout_defs Let_def not_eq_complement map_address_def
  double_free_scan_zero double_free_scan_nonzero

subsection \<open>The 20-page region\<close>

lemma init20_result: "init20 = (region20, map_address)"
  by (simp add: region20_def init20_def region_init_def map_address_def layout_defs
      alloc_caches_def Let_def not_eq_complement)

lemma region20_fields:
  "load64 region20 (map_address + 0) = 81920"
  "load64 region20 (map_address + 8) = 4096"
  "load64 region20 (map_address + 16) = 4096"
  "load64 region20 (map_address + 24) = 4048"
  "load64 region20 (map_address + 32) = 24"
  "load64 region20 (map_address + 40) = 4072"
  "load64 region20 (map_address + 48) = 24"
  "load64 region20 (map_address + 4048) = 0"
  "load64 region20 (map_address + 4072) = 0"
  "region20 (map_address + 4048) = 0"
  "region20 (map_address + 4072) = 0"
  "load64 region20 (map_address + 504 + 16) = 0"
  "load64 region20 (map_address + 504 + 24) = 0"
  "load64 region20 (map_address + 504 + 32) = 0"
  "load64 region20 (map_address + 504 + 40) = 0"
  "load64 region20 (map_address + 504 + 48) = 0"
  "load64 region20 (map_address + 504 + 56) = 0"
  "load64 region20 (map_address + 504 + 72) = 256"
  "load64 region20 (map_address + 504 + 80) = 15"
  by (simp_all add: region20_def init20_def map_address_def init_defs read_simps
      cong: weak_congs)

lemmas region20_reads = region20_fields [unfolded map_address_def, simplified]

lemma alloc256_run:
  "case region_alloc region20 map_address 256 of
     None \<Rightarrow> False
   | Some (m, obj) \<Rightarrow> obj = 4608
       \<and> load64 m (map_address + 0) = 81920
       \<and> load64 m (map_address + 8) = 4096
       \<and> load64 m (map_address + 16) = 4096
       \<and> load64 m (map_address + 24) = 4048
       \<and> load64 m (map_address + 32) = 24
       \<and> load64 m (map_address + 40) = 4072
       \<and> load64 m (map_address + 4048) = 0
       \<and> load64 m (map_address + 4072) = 64
       \<and> load64 m (map_address + 504 + 32) = 4096
       \<and> load64 m (map_address + 4096 + 32) = 4608
       \<and> load64 m (map_address + 4096 + 40) = 0
       \<and> load64 m (map_address + 4096 + 48) = 14
       \<and> m (map_address + 4048) = 0
       \<and> m (map_address + 4072) = 64
       \<and> m (map_address + 4048 + 512) = 0
       \<and> m (map_address + 4072 + 512) = 0"
  by (simp add: exec_defs region20_reads read_simps cong: weak_congs)

lemma alloc256_facts:
  "region_alloc region20 map_address 256 = Some alloc256"
  "snd alloc256 = 4608"
  "load64 (fst alloc256) (map_address + 0) = 81920"
  "load64 (fst alloc256) (map_address + 8) = 4096"
  "load64 (fst alloc256) (map_address + 16) = 4096"
  "load64 (fst alloc256) (map_address + 24) = 4048"
  "load64 (fst alloc256) (map_address + 32) = 24"
  "load64 (fst alloc256) (map_address + 40) = 4072"
  "load64 (fst alloc256) (map_address + 4048) = 0"
  "load64 (fst alloc256) (map_address + 4072) = 64"
  "load64 (fst alloc256) (map_address + 504 + 32) = 4096"
  "load64 (fst alloc256) (map_address + 4096 + 32) = 4608"
  "load64 (fst alloc256) (map_address + 4096 + 40) = 0"
  "load64 (fst alloc256) (map_address + 4096 + 48) = 14"
  "fst alloc256 (map_address + 4048) = 0"
  "fst alloc256 (map_address + 4072) = 64"
  "fst alloc256 (map_address + 4048 + 512) = 0"
  "fst alloc256 (map_address + 4072 + 512) = 0"
  using alloc256_run by (simp_all add: alloc256_def split: option.splits prod.splits)

lemmas alloc256_reads = alloc256_facts(3-) [unfolded map_address_def, simplified]

text \<open>
  C1 (the code at a failing input). On the region that \<open>region_init\<close> makes of a zeroed
  20-page mapping, \<open>region_alloc(region, 256)\<close> returns the non-zero offset 4608, and
  \<open>is_object\<close> is false for that offset in the state the call leaves.
\<close>

theorem alloc_not_is_object:
  "init20 = (region20, map_address)
   \<and> region_alloc region20 map_address 256 = Some alloc256
   \<and> snd alloc256 = 4608
   \<and> \<not> is_object (fst alloc256) map_address 4608"
  by (simp add: init20_result alloc256_facts(1,2)) (simp add: test_defs alloc256_reads)

text \<open>
  C4 (the code at a failing input). In the state after that allocation, offset 4608 is
  above \<open>pages\<close>, below \<open>size\<close> and 8-byte aligned, and its page, page 1, is marked in the
  caches bitmap and not in the heap bitmap, so in exactly one of the two; \<open>is_object\<close> is
  false all the same.
\<close>

theorem is_object_misses_marked_page:
  "load64 (fst alloc256) (map_address + region_pages_off) < 4608
   \<and> 4608 < load64 (fst alloc256) (map_address + region_size_off)
   \<and> (4608 :: u64) mod 8 = 0
   \<and> page_marked (fst alloc256) map_address
        (load64 (fst alloc256) (map_address + caches_bitset_bits_off)) (4608 div PAGE_SIZE)
   \<and> \<not> page_marked (fst alloc256) map_address
        (load64 (fst alloc256) (map_address + heap_bitset_bits_off)) (4608 div PAGE_SIZE)
   \<and> \<not> is_object (fst alloc256) map_address 4608"
  by (simp add: test_defs alloc256_reads)

lemma slab256_run:
  "case allocate_slab region20 map_address (map_address + caches_cache_off + sizeof_cache * 5) of
     None \<Rightarrow> False
   | Some (m, slab_offset) \<Rightarrow> slab_offset = 4096
       \<and> load64 m (map_address + 4096 + 32) = 4608
       \<and> load64 m (map_address + 4096 + 40) = 4608
       \<and> load64 m (map_address + 4096 + 48) = 15
       \<and> load64 m (map_address + 4608) = 0
       \<and> load64 m (map_address + 4864) = 5120
       \<and> load64 m (map_address + 7936) = 8192
       \<and> load64 m (map_address + 8192) = 0"
  by (simp add: exec_defs region20_reads read_simps cong: weak_congs)

lemma slab256_facts:
  "allocate_slab region20 map_address (map_address + caches_cache_off + sizeof_cache * 5)
     = Some slab256"
  "snd slab256 = 4096"
  "load64 (fst slab256) (map_address + 4096 + 32) = 4608"
  "load64 (fst slab256) (map_address + 4096 + 40) = 4608"
  "load64 (fst slab256) (map_address + 4096 + 48) = 15"
  "load64 (fst slab256) (map_address + 4608) = 0"
  "load64 (fst slab256) (map_address + 4864) = 5120"
  "load64 (fst slab256) (map_address + 7936) = 8192"
  "load64 (fst slab256) (map_address + 8192) = 0"
  using slab256_run by (simp_all add: slab256_def split: option.splits prod.splits)

lemmas slab256_reads = slab256_facts(3-) [unfolded map_address_def, simplified]

text \<open>
  C5 (the code at a failing input). \<open>allocate_slab\<close> for the cache of 256-byte objects
  (15 objects of aligned size 256 to a slab) on the fresh 20-page region formats page 4096
  and sets \<open>objects\<close> to 4608, not to \<open>4096 + 4096 - 15 * 256 = 4352\<close>. The free-list head is
  the first slot, 4608, but that slot holds 0 and not the offset of the second slot; the second
  slot holds the offset of the third; and the last slot, which holds 0, starts at
  \<open>4608 + 14 * 256 = 8192\<close>, the first byte after the slab's page.
\<close>

theorem allocate_slab_objects_offset:
  "allocate_slab region20 map_address (map_address + caches_cache_off + sizeof_cache * 5)
     = Some slab256
   \<and> snd slab256 = 4096
   \<and> load64 region20 (map_address + caches_cache_off + sizeof_cache * 5 + object_count_off) = 15
   \<and> load64 region20 (map_address + caches_cache_off + sizeof_cache * 5 + aligned_size_off) = 256
   \<and> load64 (fst slab256) (swizzle map_address 4096 + slab_objects_off) = 4608
   \<and> 4096 + PAGE_SIZE - 15 * 256 = 4352
   \<and> load64 (fst slab256) (swizzle map_address 4096 + slab_free_objects_off + list_off) = 4608
   \<and> load64 (fst slab256) (swizzle map_address 4608) = 0
   \<and> load64 (fst slab256) (swizzle map_address (4608 + 256)) = 4608 + 2 * 256
   \<and> load64 (fst slab256) (swizzle map_address (4608 + 14 * 256)) = 0
   \<and> (4608 :: u64) + 14 * 256 = 4096 + PAGE_SIZE"
  by (simp add: slab256_facts(1,2))
    (simp add: swizzle_def layout_defs map_address_def slab256_reads region20_reads)

text \<open>
  C6 (the code at a failing input). After \<open>region_alloc(region, 256)\<close> on the fresh
  20-page region, the one slab of the cache of 256-byte objects (the head of its partial
  list, page 4096) has \<open>free_objects.count = 14\<close>, while the walk of its free-object list
  from the head ends at once, having met no slot.
\<close>

theorem free_list_shorter_than_count:
  "region_alloc region20 map_address 256 = Some alloc256
   \<and> load64 (fst alloc256)
        (map_address + caches_cache_off + sizeof_cache * 5 + partial_slabs_off + list_off) = 4096
   \<and> load64 (fst alloc256) (swizzle map_address 4096 + slab_free_objects_off + count_off) = 14
   \<and> free_objects_walk (Suc 0) (fst alloc256) map_address
        (load64 (fst alloc256) (swizzle map_address 4096 + slab_free_objects_off + list_off))
       = Some []"
  by (simp add: alloc256_facts(1)) (simp add: swizzle_def layout_defs map_address_def alloc256_reads)

text \<open>
  C7 (the code at a failing input). On the fresh 20-page region \<open>allocate_page\<close> hands out
  page 4096, and called again on the result it hands out page 4096 again. After
  \<open>region_alloc(region, 256)\<close> has made that page a slab, the page is marked in the caches
  bitmap, \<open>free_page\<close> is still 4096, and \<open>allocate_page\<close> hands the marked page out once more.
\<close>

theorem allocate_page_repeats_page:
  "snd (allocate_page region20 map_address) = 4096
   \<and> snd (allocate_page (fst (allocate_page region20 map_address)) map_address) = 4096
   \<and> region_alloc region20 map_address 256 = Some alloc256
   \<and> page_marked (fst alloc256) map_address
        (load64 (fst alloc256) (map_address + caches_bitset_bits_off)) (4096 div PAGE_SIZE)
   \<and> load64 (fst alloc256) (map_address + region_free_page_off) = 4096
   \<and> snd (allocate_page (fst alloc256) map_address) = 4096"
  by (simp add: alloc256_facts(1))
    (simp add: allocate_page_def test_defs alloc256_reads region20_reads read_simps
      scan_blocks.simps ctzll_odd cong: weak_congs)

lemma realloc256_run:
  "case region_alloc (fst alloc256) map_address 256 of
     None \<Rightarrow> False
   | Some (m, obj) \<Rightarrow> obj = 0"
  by (simp add: exec_defs alloc256_reads read_simps cong: weak_congs)

text \<open>
  C2 (the code at a failing input). On the fresh 20-page region \<open>region_alloc(region, 256)\<close>
  returns 4608; \<open>region_free(region, 4608)\<close> then returns with the region as it was; and
  the next \<open>region_alloc(region, 256)\<close> returns 0, not 4608.
\<close>

theorem free_then_alloc_returns_null:
  "region_alloc region20 map_address 256 = Some alloc256
   \<and> snd alloc256 = 4608
   \<and> region_free (fst alloc256) map_address 4608 = Some (fst alloc256)
   \<and> region_alloc (fst alloc256) map_address 256 = Some realloc256
   \<and> snd realloc256 = 0"
proof -
  have "region_free (fst alloc256) map_address 4608 = Some (fst alloc256)"
    by (simp add: region_free_def test_defs alloc256_reads)
  moreover have "region_alloc (fst alloc256) map_address 256 = Some realloc256 \<and> snd realloc256 = 0"
    using realloc256_run by (simp add: realloc256_def split: option.splits prod.splits)
  ultimately show ?thesis
    by (simp add: alloc256_facts(1,2))
qed

subsection \<open>The 248-page region\<close>

lemma init248_result: "init248 = (region248, map_address)"
  by (simp add: region248_def init248_def region_init_def map_address_def layout_defs
      alloc_caches_def Let_def not_eq_complement)

lemma region248_fields:
  "load64 region248 (map_address + 0) = 1015808"
  "load64 region248 (map_address + 8) = 4096"
  "load64 region248 (map_address + 16) = 4096"
  "load64 region248 (map_address + 24) = 3600"
  "load64 region248 (map_address + 32) = 248"
  "load64 region248 (map_address + 40) = 3848"
  "load64 region248 (map_address + 3600) = 0"
  "load64 region248 (map_address + 3848) = 0"
  "region248 (map_address + 3848) = 0"
  "load64 region248 (map_address + 416 + 16) = 0"
  "load64 region248 (map_address + 416 + 24) = 0"
  "load64 region248 (map_address + 416 + 32) = 0"
  "load64 region248 (map_address + 416 + 40) = 0"
  "load64 region248 (map_address + 416 + 48) = 0"
  "load64 region248 (map_address + 416 + 56) = 0"
  "load64 region248 (map_address + 416 + 72) = 128"
  "load64 region248 (map_address + 416 + 80) = 31"
  "load64 region248 (map_address + 504 + 16) = 0"
  "load64 region248 (map_address + 504 + 24) = 0"
  "load64 region248 (map_address + 504 + 32) = 0"
  "load64 region248 (map_address + 504 + 40) = 0"
  "load64 region248 (map_address + 504 + 48) = 0"
  "load64 region248 (map_address + 504 + 56) = 0"
  "load64 region248 (map_address + 504 + 72) = 256"
  "load64 region248 (map_address + 504 + 80) = 15"
  by (simp_all add: region248_def init248_def map_address_def init_defs read_simps
      cong: weak_congs)

lemmas region248_reads = region248_fields [unfolded map_address_def, simplified]

lemma big256_run:
  "case region_alloc region248 map_address 256 of
     None \<Rightarrow> False
   | Some (m, obj) \<Rightarrow> obj = 4608
       \<and> load64 m (map_address + 0) = 1015808
       \<and> load64 m (map_address + 8) = 4096
       \<and> load64 m (map_address + 16) = 4096
       \<and> load64 m (map_address + 24) = 3600
       \<and> load64 m (map_address + 32) = 248
       \<and> load64 m (map_address + 40) = 3848
       \<and> load64 m (map_address + 3600) = 0
       \<and> load64 m (map_address + 3848) = 64
       \<and> m (map_address + 3848) = 64
       \<and> load64 m (map_address + 416 + 16) = 0
       \<and> load64 m (map_address + 416 + 24) = 0
       \<and> load64 m (map_address + 416 + 32) = 0
       \<and> load64 m (map_address + 416 + 40) = 0
       \<and> load64 m (map_address + 416 + 48) = 0
       \<and> load64 m (map_address + 416 + 56) = 0
       \<and> load64 m (map_address + 416 + 72) = 128
       \<and> load64 m (map_address + 416 + 80) = 31"
  by (simp add: exec_defs region248_reads read_simps cong: weak_congs)

lemma big256_facts:
  "region_alloc region248 map_address 256 = Some big256"
  "snd big256 = 4608"
  "load64 (fst big256) (map_address + 0) = 1015808"
  "load64 (fst big256) (map_address + 8) = 4096"
  "load64 (fst big256) (map_address + 16) = 4096"
  "load64 (fst big256) (map_address + 24) = 3600"
  "load64 (fst big256) (map_address + 32) = 248"
  "load64 (fst big256) (map_address + 40) = 3848"
  "load64 (fst big256) (map_address + 3600) = 0"
  "load64 (fst big256) (map_address + 3848) = 64"
  "fst big256 (map_address + 3848) = 64"
  "load64 (fst big256) (map_address + 416 + 16) = 0"
  "load64 (fst big256) (map_address + 416 + 24) = 0"
  "load64 (fst big256) (map_address + 416 + 32) = 0"
  "load64 (fst big256) (map_address + 416 + 40) = 0"
  "load64 (fst big256) (map_address + 416 + 48) = 0"
  "load64 (fst big256) (map_address + 416 + 56) = 0"
  "load64 (fst big256) (map_address + 416 + 72) = 128"
  "load64 (fst big256) (map_address + 416 + 80) = 31"
  using big256_run by (simp_all add: big256_def split: option.splits prod.splits)

lemmas big256_reads = big256_facts(3-) [unfolded map_address_def, simplified]

lemma next128_run:
  "case region_alloc (fst big256) map_address 128 of
     None \<Rightarrow> False
   | Some (m, obj) \<Rightarrow> obj = 4352
       \<and> load64 m (map_address + 0) = 1015808
       \<and> load64 m (map_address + 8) = 4096
       \<and> load64 m (map_address + 24) = 3600
       \<and> m (map_address + 3600 + 512) = 192
       \<and> m (map_address + 4096 + 41) = 0
       \<and> load64 m (map_address + 4096 + 8) = 416
       \<and> load64 m (map_address + 4096 + 24) = 0
       \<and> load64 m (map_address + 4096 + 40) = 0
       \<and> load64 m (map_address + 4096 + 48) = 30
       \<and> load64 m (map_address + 416 + 32) = 4096
       \<and> load64 m (map_address + 416 + 40) = 1
       \<and> load64 m (map_address + 416 + 48) = 0
       \<and> load64 m (map_address + 416 + 56) = 0
       \<and> load64 m (map_address + 416 + 80) = 31"
  by (simp add: exec_defs big256_reads read_simps cong: weak_congs)

lemma next128_facts:
  "region_alloc (fst big256) map_address 128 = Some next128"
  "snd next128 = 4352"
  "load64 (fst next128) (map_address + 0) = 1015808"
  "load64 (fst next128) (map_address + 8) = 4096"
  "load64 (fst next128) (map_address + 24) = 3600"
  "fst next128 (map_address + 3600 + 512) = 192"
  "fst next128 (map_address + 4096 + 41) = 0"
  "load64 (fst next128) (map_address + 4096 + 8) = 416"
  "load64 (fst next128) (map_address + 4096 + 24) = 0"
  "load64 (fst next128) (map_address + 4096 + 40) = 0"
  "load64 (fst next128) (map_address + 4096 + 48) = 30"
  "load64 (fst next128) (map_address + 416 + 32) = 4096"
  "load64 (fst next128) (map_address + 416 + 40) = 1"
  "load64 (fst next128) (map_address + 416 + 48) = 0"
  "load64 (fst next128) (map_address + 416 + 56) = 0"
  "load64 (fst next128) (map_address + 416 + 80) = 31"
  using next128_run by (simp_all add: next128_def split: option.splits prod.splits)

lemmas next128_reads = next128_facts(3-) [unfolded map_address_def, simplified]

lemma freed128_run:
  "case region_free (fst next128) map_address 4352 of
     None \<Rightarrow> False
   | Some m \<Rightarrow>
       load64 m (map_address + 0) = 1015808
       \<and> load64 m (map_address + 8) = 4096
       \<and> load64 m (map_address + 24) = 3600
       \<and> m (map_address + 3600 + 512) = 192
       \<and> m (map_address + 4096 + 41) = 17
       \<and> load64 m (map_address + 4096 + 8) = 416
       \<and> load64 m (map_address + 4096 + 40) = 4352"
  by (simp add: free_defs next128_reads read_simps cong: weak_congs)

lemma freed128_facts:
  "region_free (fst next128) map_address 4352 = Some freed128"
  "load64 freed128 (map_address + 0) = 1015808"
  "load64 freed128 (map_address + 8) = 4096"
  "load64 freed128 (map_address + 24) = 3600"
  "freed128 (map_address + 3600 + 512) = 192"
  "freed128 (map_address + 4096 + 41) = 17"
  "load64 freed128 (map_address + 4096 + 8) = 416"
  "load64 freed128 (map_address + 4096 + 40) = 4352"
  using freed128_run by (simp_all add: freed128_def split: option.splits)

lemmas freed128_reads = freed128_facts(2-) [unfolded map_address_def, simplified]

text \<open>
  C3 (the code at a failing input). On the region that \<open>region_init\<close> makes of a zeroed
  248-page mapping, \<open>region_alloc(region, 256)\<close> returns 4608 and \<open>region_alloc(region, 128)\<close>
  returns 4352. \<open>region_free(region, 4352)\<close> returns and leaves 4352 at the head of the
  free-object list of the slab at page 4096, the page of both objects. \<open>region_free(region,
  4608)\<close>, called next on an offset that \<open>region_alloc\<close> returned and that has not been freed,
  does not return.
\<close>

theorem region_free_does_not_return:
  "init248 = (region248, map_address)
   \<and> region_alloc region248 map_address 256 = Some big256
   \<and> snd big256 = 4608
   \<and> region_alloc (fst big256) map_address 128 = Some next128
   \<and> snd next128 = 4352
   \<and> region_free (fst next128) map_address 4352 = Some freed128
   \<and> load64 freed128 (swizzle map_address (4608 AND PAGE_MASK) + slab_free_objects_off + list_off)
       = 4352
   \<and> region_free freed128 map_address 4608 = None"
  by (simp add: init248_result big256_facts(1,2) next128_facts(1,2) freed128_facts(1))
    (simp add: free_defs freed128_reads cong: weak_congs)

section \<open>What \<open>region_free\<close> leaves alone\<close>

text \<open>
  C10, as stated, fails: in the state reached from \<open>region_init\<close> by
  \<open>region_alloc(region, 256)\<close> and \<open>region_alloc(region, 128)\<close> on the 248-page region,
  \<open>region_free(region, 4352)\<close> returns a region in which the byte at offset \<open>4096 + 41\<close>
  (in the head of the slab's free-object list) is 17 where it was 0.
\<close>

theorem region_free_changes_region:
  "init248 = (region248, map_address)
   \<and> region_alloc region248 map_address 256 = Some big256
   \<and> region_alloc (fst big256) map_address 128 = Some next128
   \<and> region_free (fst next128) map_address 4352 = Some freed128
   \<and> fst next128 (map_address + 4096 + 41) = 0
   \<and> freed128 (map_address + 4096 + 41) = 17"
  using next128_facts(7) freed128_facts(6)
  by (simp add: init248_result big256_facts(1) next128_facts(1) freed128_facts(1))

text \<open>
  C10, amended. In every state, \<open>region_free(region, o)\<close> returns and leaves every byte of
  the region unchanged for every offset \<open>o\<close> that is not above \<open>pages\<close>, or not below \<open>size\<close>,
  or not 8-byte aligned, or for which \<open>is_cache_object\<close> is false; it reaches \<open>cache_free\<close>
  only past these four tests.
\<close>

theorem region_free_frame:
  "object \<le> load64 m (region + region_pages_off)
   \<or> load64 m (region + region_size_off) \<le> object
   \<or> object AND 7 \<noteq> 0
   \<or> \<not> is_cache_object m region object
   \<Longrightarrow> region_free m region object = Some m"
  by (auto simp add: region_free_def)

theorem region_free_frame_witness:
  "\<not> is_cache_object (fst alloc256) map_address 4608
   \<and> region_free (fst alloc256) map_address 4608 = Some (fst alloc256)"
proof -
  have "\<not> is_cache_object (fst alloc256) map_address 4608"
    by (simp add: test_defs alloc256_reads)
  with region_free_frame [of 4608 "fst alloc256" map_address] show ?thesis
    by simp
qed

end
